theory Spec2Isabelle
  imports Complex_Main "HOL-Library.Sublist"
begin

section \<open>Python strings\<close>

text \<open>
  A Python \<open>str\<close> is modelled as a \<^typ>\<open>string\<close>, one \<^typ>\<open>char\<close> per code point
  below 256 (ASCII and Latin-1). \<open>str.lower()\<close> maps the upper-case letters of that range
  (\<open>A\<close> to \<open>Z\<close>, and U+00C0 to U+00DE without the multiplication sign U+00D7) to the code
  point 32 above and leaves every other character alone.
\<close>

definition lower_char :: "char \<Rightarrow> char" where
  "lower_char c =
     (let n = (of_char c :: nat) in
      if (65 \<le> n \<and> n \<le> 90) \<or> (192 \<le> n \<and> n \<le> 222 \<and> n \<noteq> 215)
      then char_of (n + 32) else c)"

definition lower :: "string \<Rightarrow> string" where
  "lower s = map lower_char s"

text \<open>
  \<open>str.strip()\<close> removes leading and trailing whitespace: the code points for which
  \<open>str.isspace()\<close> holds, which below 256 are 9 to 13, 28 to 32, 133 and 160.
\<close>

definition isspace :: "char \<Rightarrow> bool" where
  "isspace c =
     (let n = (of_char c :: nat) in
      (9 \<le> n \<and> n \<le> 13) \<or> (28 \<le> n \<and> n \<le> 32) \<or> n = 133 \<or> n = 160)"

definition strip :: "string \<Rightarrow> string" where
  "strip s = rev (dropWhile isspace (rev (dropWhile isspace s)))"

text \<open>
  \<open>any(word in s for word in words)\<close>: Python's \<open>in\<close> on two strings is contiguous
  substring containment, which is \<^const>\<open>sublist\<close> on lists of characters.
\<close>

definition any_word_in :: "string list \<Rightarrow> string \<Rightarrow> bool" where
  "any_word_in words s = list_ex (\<lambda>word. sublist word s) words"

section \<open>The responder: \<open>get_ai_response\<close>\<close>

text \<open>The six replies, character for character as the source has them.\<close>

definition licenses_template :: string where
  "licenses_template =
     ''Regarding your question about licenses and permits:\<newline>'' @
     ''\<newline>'' @
     ''For most licenses and permits, you'll need to:\<newline>'' @
     ''1. Visit your local government office or official website\<newline>'' @
     ''2. Bring required documentation (usually ID, proof of residence, application forms)\<newline>'' @
     ''3. Pay applicable fees\<newline>'' @
     ''4. Allow processing time (varies by type)\<newline>'' @
     ''\<newline>'' @
     ''Common types:\<newline>'' @
     ''- Driver's License: Contact your local DMV\<newline>'' @
     ''- Business License: Visit your city/county clerk's office\<newline>'' @
     ''- Building Permit: Contact your local building department\<newline>'' @
     ''- Professional License: Check with your state's professional licensing board\<newline>'' @
     ''\<newline>'' @
     ''Would you like specific information about a particular type of license or permit?''"

definition voting_template :: string where
  "voting_template =
     ''Regarding voting and elections:\<newline>'' @
     ''\<newline>'' @
     ''To participate in elections, you need to:\<newline>'' @
     ''1. Register to vote (if not already registered)\<newline>'' @
     ''2. Find your polling location\<newline>'' @
     ''3. Understand what's on your ballot\<newline>'' @
     ''4. Know your voting rights\<newline>'' @
     ''\<newline>'' @
     ''Key resources:\<newline>'' @
     ''- Voter registration: Contact your local election office or register online\<newline>'' @
     ''- Polling locations: Check your state's Secretary of State website\<newline>'' @
     ''- Sample ballots: Available on your county election website\<newline>'' @
     ''- Voting rights: Protected by federal and state law\<newline>'' @
     ''\<newline>'' @
     ''Upcoming elections and deadlines can be found on your local election office website.''"

definition tax_template :: string where
  "tax_template =
     ''Regarding tax matters:\<newline>'' @
     ''\<newline>'' @
     ''For tax assistance, here are your main options:\<newline>'' @
     ''1. IRS website (irs.gov) for federal tax information\<newline>'' @
     ''2. Your state's revenue department for state taxes\<newline>'' @
     ''3. Local tax assessor for property taxes\<newline>'' @
     ''4. Free tax preparation programs (VITA/TCE) for qualifying individuals\<newline>'' @
     ''\<newline>'' @
     ''Common tax services:\<newline>'' @
     ''- Filing tax returns\<newline>'' @
     ''- Getting tax refunds\<newline>'' @
     ''- Payment plans for owed taxes\<newline>'' @
     ''- Tax transcripts and records\<newline>'' @
     ''- Resolving tax issues\<newline>'' @
     ''\<newline>'' @
     ''For immediate assistance, you can call the IRS helpline or visit a local tax assistance center.''"

definition social_template :: string where
  "social_template =
     ''Regarding social services and benefits:\<newline>'' @
     ''\<newline>'' @
     ''Common assistance programs include:\<newline>'' @
     ''1. SNAP (Food assistance)\<newline>'' @
     ''2. Medicaid (Healthcare)\<newline>'' @
     ''3. TANF (Temporary assistance)\<newline>'' @
     ''4. Housing assistance\<newline>'' @
     ''5. Unemployment benefits\<newline>'' @
     ''\<newline>'' @
     ''To apply:\<newline>'' @
     ''- Visit your local Department of Social Services\<newline>'' @
     ''- Apply online through your state's benefits portal\<newline>'' @
     ''- Call the benefits hotline in your area\<newline>'' @
     ''- Bring required documentation (ID, income proof, etc.)\<newline>'' @
     ''\<newline>'' @
     ''Eligibility varies by program and income level. Most applications can be started online and completed in person.''"

definition legal_template :: string where
  "legal_template =
     ''Regarding legal and court matters:\<newline>'' @
     ''\<newline>'' @
     ''For court-related issues:\<newline>'' @
     ''1. Traffic tickets: Pay online, by mail, or contest in court\<newline>'' @
     ''2. Small claims: File at your local courthouse\<newline>'' @
     ''3. Legal aid: Free/low-cost legal help for qualifying individuals\<newline>'' @
     ''4. Court records: Available through clerk of court\<newline>'' @
     ''\<newline>'' @
     ''Important:\<newline>'' @
     ''- Never ignore court notices or tickets\<newline>'' @
     ''- Deadlines are strictly enforced\<newline>'' @
     ''- Legal aid organizations can help if you can't afford an attorney\<newline>'' @
     ''- Court self-help centers provide guidance for representing yourself\<newline>'' @
     ''\<newline>'' @
     ''Contact your local courthouse for specific procedures and requirements.''"

definition default_template :: string where
  "default_template =
     ''Thank you for your question about government services.\<newline>'' @
     ''\<newline>'' @
     ''I'm here to help with information about:\<newline>'' @
     ''- Licenses and permits\<newline>'' @
     ''- Voting and elections  \<newline>'' @
     ''- Tax matters\<newline>'' @
     ''- Social services and benefits\<newline>'' @
     ''- Court and legal issues\<newline>'' @
     ''- Municipal services\<newline>'' @
     ''\<newline>'' @
     ''For the most accurate and up-to-date information about your specific situation, I recommend:\<newline>'' @
     ''1. Visiting your local government office\<newline>'' @
     ''2. Checking official government websites (.gov domains)\<newline>'' @
     ''3. Calling the relevant department directly\<newline>'' @
     ''\<newline>'' @
     ''Could you provide more details about what specific government service or information you're looking for? I'd be happy to point you in the right direction.''"

text \<open>
  The keyword lists of the source, in the order of its \<open>if\<close>/\<open>elif\<close> chain.
\<close>

definition license_words :: "string list" where
  "license_words = [''license'', ''permit'', ''registration'', ''id'']"

definition voting_words :: "string list" where
  "voting_words = [''vote'', ''voting'', ''election'', ''ballot'']"

definition tax_words :: "string list" where
  "tax_words = [''tax'', ''taxes'', ''irs'', ''refund'']"

definition social_words :: "string list" where
  "social_words = [''social'', ''benefits'', ''assistance'', ''welfare'', ''food'', ''medicaid'']"

definition legal_words :: "string list" where
  "legal_words = [''court'', ''legal'', ''lawsuit'', ''ticket'', ''fine'']"

definition get_ai_response :: "string \<Rightarrow> string" where
  "get_ai_response question =
     (let question_lower = lower question in
      if any_word_in license_words question_lower then licenses_template
      else if any_word_in voting_words question_lower then voting_template
      else if any_word_in tax_words question_lower then tax_template
      else if any_word_in social_words question_lower then social_template
      else if any_word_in legal_words question_lower then legal_template
      else default_template)"

section \<open>Exceptions\<close>

text \<open>
  Every exception below is an instance of Python's \<open>Exception\<close>, so an \<open>except Exception\<close>
  clause catches it. \<open>SQLAlchemyError\<close> is what a refused \<open>db.session.commit()\<close> raises,
  \<open>NoJsonBody\<close> what reading \<open>request.json\<close> raises when the request carries no JSON
  object, and \<open>ScorerError\<close> stands for whatever the polarity scorer raises.
\<close>

datatype py_exception =
    SQLAlchemyError
  | NoJsonBody
  | ScorerError string

section \<open>The feedback classifier: \<open>analyze_sentiment\<close>\<close>

text \<open>
  The scorer (\<open>TextBlob(text).sentiment.polarity\<close>) is a library outside the repository
  and is a parameter: it returns a finite float, read as the real number it denotes, or
  raises. The literal \<open>0.1\<close> of the source is the double nearest to one tenth.
\<close>

definition float_0_1 :: real where
  "float_0_1 = 3602879701896397 / 36028797018963968"

definition analyze_sentiment :: "(string \<Rightarrow> py_exception + real) \<Rightarrow> string \<Rightarrow> string" where
  "analyze_sentiment polarity_of text =
     (case polarity_of text of
        Inr polarity \<Rightarrow>
          if polarity > float_0_1 then ''Positive''
          else if polarity < - float_0_1 then ''Negative''
          else ''Neutral''
      | Inl e \<Rightarrow> ''Neutral'')"

section \<open>The chat-turn classifier\<close>

text \<open>
  Lines 327 to 332 of \<open>chat_api\<close>, as a function of \<open>user_input\<close>.
\<close>

definition negative_words :: "string list" where
  "negative_words =
     [''angry'', ''frustrated'', ''upset'', ''hate'', ''terrible'', ''awful'', ''disappointed'', ''bad'']"

definition positive_words :: "string list" where
  "positive_words =
     [''happy'', ''great'', ''excellent'', ''love'', ''amazing'', ''wonderful'', ''good'', ''satisfied'']"

definition chat_sentiment :: "string \<Rightarrow> string" where
  "chat_sentiment user_input =
     (let user_lower = lower user_input in
      if any_word_in negative_words user_lower then ''negative''
      else if any_word_in positive_words user_lower then ''positive''
      else ''neutral'')"

section \<open>The database\<close>

record user =
  u_id :: nat
  u_full_name :: string
  u_email :: string
  u_password_hash :: string
  u_created_at :: nat

record chat_history =
  c_id :: nat
  c_user_id :: nat
  c_question :: string
  c_response :: string
  c_timestamp :: nat

record feedback =
  f_id :: nat
  f_user_id :: nat
  f_question :: string
  f_feedback_text :: string
  f_sentiment :: string
  f_timestamp :: nat

text \<open>The committed tables, each in insertion order.\<close>

record db =
  users :: "user list"
  chat_rows :: "chat_history list"
  feedback_rows :: "feedback list"

text \<open>
  An object handed to \<open>db.session.add\<close>: it has no id and no timestamp until it is
  flushed.
\<close>

datatype new_row =
    NewUser string string string
  | NewChatHistory nat string string
  | NewFeedback nat string string string

text \<open>
  The database session of one request: the tables and the objects added but not yet
  committed. Each request starts with nothing pending.
\<close>

record db_session =
  tables :: db
  pending :: "new_row list"

text \<open>
  What the handler cannot decide: whether the database accepts the commit, the clock
  behind the \<open>datetime.utcnow\<close> column defaults, and the salt \<open>generate_password_hash\<close>
  draws.
\<close>

record env =
  commit_ok :: bool
  now :: nat
  salt :: string

definition new_session :: "db \<Rightarrow> db_session" where
  "new_session d = \<lparr>tables = d, pending = []\<rparr>"

definition next_id :: "nat list \<Rightarrow> nat" where
  "next_id ids = Suc (fold max ids 0)"

fun insert_row :: "nat \<Rightarrow> new_row \<Rightarrow> db \<Rightarrow> db" where
  "insert_row t (NewUser full_name email password_hash) d =
     d\<lparr>users := users d @
        [\<lparr>u_id = next_id (map u_id (users d)), u_full_name = full_name, u_email = email,
          u_password_hash = password_hash, u_created_at = t\<rparr>]\<rparr>"
| "insert_row t (NewChatHistory uid question response) d =
     d\<lparr>chat_rows := chat_rows d @
        [\<lparr>c_id = next_id (map c_id (chat_rows d)), c_user_id = uid, c_question = question,
          c_response = response, c_timestamp = t\<rparr>]\<rparr>"
| "insert_row t (NewFeedback uid question feedback_text sentiment) d =
     d\<lparr>feedback_rows := feedback_rows d @
        [\<lparr>f_id = next_id (map f_id (feedback_rows d)), f_user_id = uid, f_question = question,
          f_feedback_text = feedback_text, f_sentiment = sentiment, f_timestamp = t\<rparr>]\<rparr>"

definition db_add :: "new_row \<Rightarrow> db_session \<Rightarrow> db_session" where
  "db_add row s = s\<lparr>pending := pending s @ [row]\<rparr>"

text \<open>
  \<open>db.session.commit()\<close>: an accepted commit writes the pending objects to the tables; a
  refused one raises and writes nothing, and the objects stay in the session until
  \<open>db.session.rollback()\<close> discards them.
\<close>

definition db_commit :: "env \<Rightarrow> db_session \<Rightarrow> py_exception + db_session" where
  "db_commit e s =
     (if commit_ok e
      then Inr \<lparr>tables = fold (insert_row (now e)) (pending s) (tables s), pending = []\<rparr>
      else Inl SQLAlchemyError)"

definition db_rollback :: "db_session \<Rightarrow> db_session" where
  "db_rollback s = s\<lparr>pending := []\<rparr>"

text \<open>\<open>User.query.filter_by(email=email).first()\<close>\<close>

definition user_by_email :: "db \<Rightarrow> string \<Rightarrow> user option" where
  "user_by_email d email = find (\<lambda>u. u_email u = email) (users d)"

text \<open>\<open>Feedback.query.filter_by(user_id=uid).all()\<close>\<close>

definition feedback_of :: "db \<Rightarrow> nat \<Rightarrow> feedback list" where
  "feedback_of d uid = filter (\<lambda>f. f_user_id f = uid) (feedback_rows d)"

section \<open>Requests, the browser session and responses\<close>

datatype http_method = GET | POST

text \<open>
  A value of a JSON body: a string, or anything else with its Python truthiness.
\<close>

datatype json_value = JString string | JOther bool

text \<open>
  \<open>form\<close> is the form-encoded body in the order sent (\<open>.get\<close> reads the first value of a
  key); \<open>json\<close> is the parsed JSON object, absent when the body is not one.
\<close>

record request =
  meth :: http_method
  path :: string
  form :: "(string \<times> string) list"
  json :: "(string \<times> json_value) list option"

definition form_get :: "request \<Rightarrow> string \<Rightarrow> string \<Rightarrow> string" where
  "form_get req key dflt = (case map_of (form req) key of Some v \<Rightarrow> v | None \<Rightarrow> dflt)"

text \<open>
  Flask's \<open>session\<close>: the two keys the handlers set and the queue of flashed messages,
  each a pair of category and message.
\<close>

record session =
  user_id :: "nat option"
  user_name :: "string option"
  flashes :: "(string \<times> string) list"

definition flash :: "string \<Rightarrow> string \<Rightarrow> session \<Rightarrow> session" where
  "flash message category sess = sess\<lparr>flashes := flashes sess @ [(category, message)]\<rparr>"

record stats =
  positive :: nat
  neutral :: nat
  negative :: nat
  total :: nat

datatype template_context = NoContext | DashboardContext stats "feedback list"

text \<open>
  A response: a redirect to a path, a rendered template with its context and status, a
  JSON object with its status, or the framework's own error page for a status.
\<close>

datatype response =
    Redirect string
  | Render string template_context nat
  | Jsonify "(string \<times> string) list" nat
  | Abort nat

datatype endpoint =
    Index | Login | Signup | Home | Chat | ChatApi | SubmitFeedback | Dashboard | About | Logout

fun url_for :: "endpoint \<Rightarrow> string" where
  "url_for Index = ''/''"
| "url_for Login = ''/login''"
| "url_for Signup = ''/signup''"
| "url_for Home = ''/home''"
| "url_for Chat = ''/chat''"
| "url_for ChatApi = ''/chat''"
| "url_for SubmitFeedback = ''/submit_feedback''"
| "url_for Dashboard = ''/dashboard''"
| "url_for About = ''/about''"
| "url_for Logout = ''/logout''"

definition render_template :: "string \<Rightarrow> response" where
  "render_template name = Render name NoContext 200"

text \<open>
  What a view function leaves behind: its response or the exception that escaped it,
  the browser session, and the database session.
\<close>

type_synonym outcome = "(py_exception + response) \<times> session \<times> db_session"

section \<open>The dashboard statistics: \<open>get_feedback_stats\<close>\<close>

fun tally :: "feedback list \<Rightarrow> stats \<Rightarrow> stats" where
  "tally [] st = st"
| "tally (fb # rest) st =
     (let sentiment = lower (f_sentiment fb) in
      tally rest
        (if sentiment = ''positive'' then st\<lparr>positive := positive st + 1\<rparr>
         else if sentiment = ''negative'' then st\<lparr>negative := negative st + 1\<rparr>
         else st\<lparr>neutral := neutral st + 1\<rparr>))"

definition get_feedback_stats :: "session \<Rightarrow> db \<Rightarrow> stats" where
  "get_feedback_stats sess d =
     (case user_id sess of
        None \<Rightarrow> \<lparr>positive = 0, neutral = 0, negative = 0, total = 0\<rparr>
      | Some uid \<Rightarrow>
          (let feedback_entries = feedback_of d uid in
           tally feedback_entries
             \<lparr>positive = 0, neutral = 0, negative = 0, total = length feedback_entries\<rparr>))"

section \<open>The view functions\<close>

definition index :: "session \<times> db \<Rightarrow> outcome" where
  "index = (\<lambda>(sess, d). (Inr (render_template ''index.html''), sess, new_session d))"

text \<open>
  The password functions of werkzeug are parameters: \<open>check_hash pwhash password\<close> is
  \<open>check_password_hash\<close>, and \<open>gen_hash salt password\<close> is \<open>generate_password_hash\<close> with
  the salt it draws.
\<close>

definition login :: "(string \<Rightarrow> string \<Rightarrow> bool) \<Rightarrow> request \<Rightarrow> session \<times> db \<Rightarrow> outcome" where
  "login check_hash req = (\<lambda>(sess, d).
     if meth req = POST then
       (let email = strip (form_get req ''email'' '''');
            password = form_get req ''password'' '''' in
        if email = [] \<or> password = [] then
          (Inr (render_template ''login.html''),
           flash ''Please fill in all fields.'' ''error'' sess, new_session d)
        else
          (case user_by_email d email of
             Some usr \<Rightarrow>
               if check_hash (u_password_hash usr) password then
                 (Inr (Redirect (url_for Home)),
                  flash ''Login successful!'' ''success''
                    (sess\<lparr>user_id := Some (u_id usr), user_name := Some (u_full_name usr)\<rparr>),
                  new_session d)
               else
                 (Inr (render_template ''login.html''),
                  flash ''Invalid email or password.'' ''error'' sess, new_session d)
           | None \<Rightarrow>
               (Inr (render_template ''login.html''),
                flash ''Invalid email or password.'' ''error'' sess, new_session d)))
     else (Inr (render_template ''login.html''), sess, new_session d))"

definition signup :: "(string \<Rightarrow> string \<Rightarrow> string) \<Rightarrow> env \<Rightarrow> request \<Rightarrow> session \<times> db \<Rightarrow> outcome" where
  "signup gen_hash e req = (\<lambda>(sess, d).
     if meth req = POST then
       (let full_name = strip (form_get req ''full_name'' '''');
            email = strip (form_get req ''email'' '''');
            password = form_get req ''password'' '''' in
        if \<not> (full_name \<noteq> [] \<and> email \<noteq> [] \<and> password \<noteq> []) then
          (Inr (render_template ''signup.html''),
           flash ''Please fill in all fields.'' ''error'' sess, new_session d)
        else
          (case user_by_email d email of
             Some existing_user \<Rightarrow>
               (Inr (render_template ''signup.html''),
                flash ''Email already registered. Please login instead.'' ''error'' sess,
                new_session d)
           | None \<Rightarrow>
               (let password_hash = gen_hash (salt e) password;
                    s1 = db_add (NewUser full_name email password_hash) (new_session d) in
                case db_commit e s1 of
                  Inr s2 \<Rightarrow>
                    (Inr (Redirect (url_for Login)),
                     flash ''Account created successfully! Please log in.'' ''success'' sess, s2)
                | Inl ex \<Rightarrow>
                    (Inr (render_template ''signup.html''),
                     flash ''Error creating account. Please try again.'' ''error'' sess,
                     db_rollback s1))))
     else (Inr (render_template ''signup.html''), sess, new_session d))"

definition home :: "session \<times> db \<Rightarrow> outcome" where
  "home = (\<lambda>(sess, d).
     if user_id sess = None then (Inr (Redirect (url_for Login)), sess, new_session d)
     else (Inr (render_template ''home.html''), sess, new_session d))"

definition chat :: "session \<times> db \<Rightarrow> outcome" where
  "chat = (\<lambda>(sess, d).
     if user_id sess = None then (Inr (Redirect (url_for Login)), sess, new_session d)
     else (Inr (render_template ''chat.html''), sess, new_session d))"

text \<open>
  \<open>request.form.get('message') or request.json.get('message')\<close>: the form value when it
  is a non-empty string, otherwise the \<open>message\<close> member of the JSON body (\<open>None\<close> when
  the object has none); reading \<open>request.json\<close> raises when there is no JSON object.
  A message that is not a string has no \<open>.strip()\<close>: the \<open>AttributeError\<close> is raised
  inside the \<open>try\<close> of \<open>chat_api\<close> and answered there with the 503 reply.
\<close>

definition message_of :: "request \<Rightarrow> py_exception + json_value option" where
  "message_of req =
     (let from_json =
        (case json req of
           None \<Rightarrow> Inl NoJsonBody
         | Some obj \<Rightarrow> Inr (map_of obj ''message'')) in
      case map_of (form req) ''message'' of
        Some v \<Rightarrow> if v \<noteq> [] then Inr (Some (JString v)) else from_json
      | None \<Rightarrow> from_json)"

fun truthy :: "json_value option \<Rightarrow> bool" where
  "truthy None = False"
| "truthy (Some (JString s)) = (s \<noteq> [])"
| "truthy (Some (JOther b)) = b"

definition chat_api :: "env \<Rightarrow> request \<Rightarrow> session \<times> db \<Rightarrow> outcome" where
  "chat_api e req = (\<lambda>(sess, d).
     case user_id sess of
       None \<Rightarrow>
         (Inr (Jsonify [(''error'', ''Authentication required'')] 401), sess, new_session d)
     | Some uid \<Rightarrow>
         (case message_of req of
            Inl ex \<Rightarrow> (Inl ex, sess, new_session d)
          | Inr msg \<Rightarrow>
              if \<not> truthy msg then
                (Inr (Jsonify [(''error'', ''Message is required'')] 400), sess, new_session d)
              else
                (case msg of
                   Some (JString user_input) \<Rightarrow>
                     (let ai_reply = get_ai_response (strip user_input);
                          s1 = db_add (NewChatHistory uid user_input ai_reply) (new_session d) in
                      case db_commit e s1 of
                        Inl ex \<Rightarrow>
                          (Inr (Jsonify
                             [(''error'',
                               ''AI service is temporarily unavailable. Please try again later.'')]
                             503),
                           sess, s1)
                      | Inr s2 \<Rightarrow>
                          (Inr (Jsonify
                             [(''reply'', ai_reply),
                              (''sentiment'', chat_sentiment user_input),
                              (''question'', user_input)]
                             200),
                           sess, s2))
                 | _ \<Rightarrow>
                     (Inr (Jsonify
                        [(''error'',
                          ''AI service is temporarily unavailable. Please try again later.'')]
                        503),
                      sess, new_session d))))"

definition submit_feedback ::
  "(string \<Rightarrow> py_exception + real) \<Rightarrow> env \<Rightarrow> request \<Rightarrow> session \<times> db \<Rightarrow> outcome" where
  "submit_feedback polarity_of e req = (\<lambda>(sess, d).
     case user_id sess of
       None \<Rightarrow> (Inr (Redirect (url_for Login)), sess, new_session d)
     | Some uid \<Rightarrow>
         (let question = form_get req ''question'' '''';
              feedback_text = strip (form_get req ''feedback'' '''') in
          if feedback_text \<noteq> [] then
            (let sentiment = analyze_sentiment polarity_of feedback_text;
                 s1 = db_add (NewFeedback uid question feedback_text sentiment) (new_session d) in
             case db_commit e s1 of
               Inl ex \<Rightarrow> (Inl ex, sess, s1)
             | Inr s2 \<Rightarrow>
                 (Inr (Redirect (url_for Chat)),
                  flash ''Thank you for your feedback! It helps us improve our services.''
                    ''success'' sess,
                  s2))
          else (Inr (Redirect (url_for Chat)), sess, new_session d)))"

text \<open>
  The ten newest feedback rows of the user; among rows of one timestamp the order is the
  database's choice, taken here as newest insertion first.
\<close>

definition recent_feedback :: "db \<Rightarrow> nat \<Rightarrow> feedback list" where
  "recent_feedback d uid = take 10 (rev (sort_key f_timestamp (feedback_of d uid)))"

definition dashboard :: "session \<times> db \<Rightarrow> outcome" where
  "dashboard = (\<lambda>(sess, d).
     case user_id sess of
       None \<Rightarrow> (Inr (Redirect (url_for Login)), sess, new_session d)
     | Some uid \<Rightarrow>
         (Inr (Render ''dashboard.html''
                 (DashboardContext (get_feedback_stats sess d) (recent_feedback d uid)) 200),
          sess, new_session d))"

definition about :: "session \<times> db \<Rightarrow> outcome" where
  "about = (\<lambda>(sess, d). (Inr (render_template ''about.html''), sess, new_session d))"

definition logout :: "session \<times> db \<Rightarrow> outcome" where
  "logout = (\<lambda>(sess, d).
     (Inr (Redirect (url_for Index)),
      flash ''You have been logged out.'' ''info''
        \<lparr>user_id = None, user_name = None, flashes = []\<rparr>,
      new_session d))"

definition page_not_found :: response where
  "page_not_found = Render ''404.html'' NoContext 404"

section \<open>Routing\<close>

text \<open>
  The \<open>@app.route\<close> table: the view function of a method and path, a 404 page for a path
  no rule has, and the framework's 405 for a path whose rules do not allow the method.
  The libraries the views call are collected in one record.
\<close>

record libs =
  lib_polarity :: "string \<Rightarrow> py_exception + real"
  lib_gen_hash :: "string \<Rightarrow> string \<Rightarrow> string"
  lib_check_hash :: "string \<Rightarrow> string \<Rightarrow> bool"

definition route :: "http_method \<Rightarrow> string \<Rightarrow> endpoint option" where
  "route m p =
     (if p = ''/'' \<and> m = GET then Some Index
      else if p = ''/login'' then Some Login
      else if p = ''/signup'' then Some Signup
      else if p = ''/home'' \<and> m = GET then Some Home
      else if p = ''/chat'' then Some (if m = GET then Chat else ChatApi)
      else if p = ''/submit_feedback'' \<and> m = POST then Some SubmitFeedback
      else if p = ''/dashboard'' \<and> m = GET then Some Dashboard
      else if p = ''/about'' \<and> m = GET then Some About
      else if p = ''/logout'' \<and> m = GET then Some Logout
      else None)"

definition known_paths :: "string list" where
  "known_paths =
     [''/'', ''/login'', ''/signup'', ''/home'', ''/chat'', ''/submit_feedback'',
      ''/dashboard'', ''/about'', ''/logout'']"

fun view :: "libs \<Rightarrow> env \<Rightarrow> endpoint \<Rightarrow> request \<Rightarrow> session \<times> db \<Rightarrow> outcome" where
  "view l e Index req = index"
| "view l e Login req = login (lib_check_hash l) req"
| "view l e Signup req = signup (lib_gen_hash l) e req"
| "view l e Home req = home"
| "view l e Chat req = chat"
| "view l e ChatApi req = chat_api e req"
| "view l e SubmitFeedback req = submit_feedback (lib_polarity l) e req"
| "view l e Dashboard req = dashboard"
| "view l e About req = about"
| "view l e Logout req = logout"

definition dispatch :: "libs \<Rightarrow> env \<Rightarrow> request \<Rightarrow> session \<times> db \<Rightarrow> outcome" where
  "dispatch l e req = (\<lambda>(sess, d).
     case route (meth req) (path req) of
       Some ep \<Rightarrow> view l e ep req (sess, d)
     | None \<Rightarrow>
         if path req \<in> set known_paths then (Inr (Abort 405), sess, new_session d)
         else (Inr page_not_found, sess, new_session d))"

section \<open>The classification rules as the specification words them\<close>

text \<open>
  The specification gives the responder as five keyword sets paired with their replies,
  tried in order, and the chat-turn classifier as two word sets. These definitions follow
  its words; the theorems below compare them with the functions taken from the source.
\<close>

definition spec_contains_any :: "string set \<Rightarrow> string \<Rightarrow> bool" where
  "spec_contains_any S s = (\<exists>w \<in> S. sublist w s)"

definition spec_keyword_sets :: "(string set \<times> string) list" where
  "spec_keyword_sets =
     [({''license'', ''permit'', ''registration'', ''id''}, licenses_template),
      ({''vote'', ''voting'', ''election'', ''ballot''}, voting_template),
      ({''tax'', ''taxes'', ''irs'', ''refund''}, tax_template),
      ({''social'', ''benefits'', ''assistance'', ''welfare'', ''food'', ''medicaid''},
       social_template),
      ({''court'', ''legal'', ''lawsuit'', ''ticket'', ''fine''}, legal_template)]"

fun spec_first_match :: "(string set \<times> string) list \<Rightarrow> string \<Rightarrow> string" where
  "spec_first_match [] s = default_template"
| "spec_first_match ((S, template) # rest) s =
     (if spec_contains_any S s then template else spec_first_match rest s)"

definition spec_responder :: "string \<Rightarrow> string" where
  "spec_responder question = spec_first_match spec_keyword_sets (lower question)"

definition spec_negative_set :: "string set" where
  "spec_negative_set =
     {''angry'', ''frustrated'', ''upset'', ''hate'', ''terrible'', ''awful'', ''disappointed'',
      ''bad''}"

definition spec_positive_set :: "string set" where
  "spec_positive_set =
     {''happy'', ''great'', ''excellent'', ''love'', ''amazing'', ''wonderful'', ''good'',
      ''satisfied''}"

definition spec_chat_classifier :: "string \<Rightarrow> string" where
  "spec_chat_classifier s =
     (if spec_contains_any spec_negative_set (lower s) then ''negative''
      else if spec_contains_any spec_positive_set (lower s) then ''positive''
      else ''neutral'')"

text \<open>
  Whole-word membership, which the source does not use, for comparison: the words of a
  string are its maximal runs of characters that are not whitespace (\<open>str.split()\<close>).
\<close>

definition split_words :: "string \<Rightarrow> string list" where
  "split_words s =
     filter (\<lambda>w. w \<noteq> [])
       (foldr (\<lambda>c acc. if isspace c then [] # acc
                        else (case acc of [] \<Rightarrow> [[c]] | w # ws \<Rightarrow> (c # w) # ws)) s [])"

definition whole_word_member :: "string list \<Rightarrow> string \<Rightarrow> bool" where
  "whole_word_member words s = list_ex (\<lambda>word. word \<in> set (split_words s)) words"

section \<open>Sample libraries and inputs\<close>

text \<open>
  A scorer and a pair of password functions to run the views on concrete inputs. The
  scorer knows three words and raises on a fourth; the sample hash keeps nothing secret
  and only has the one property the views rely on: a hash verifies exactly the password
  it was made from.
\<close>

definition sample_polarity :: "string \<Rightarrow> py_exception + real" where
  "sample_polarity text =
     (if sublist ''great'' text then Inr (1 / 2)
      else if sublist ''awful'' text then Inr (- 1 / 2)
      else if sublist ''crash'' text then Inl (ScorerError ''lexicon not found'')
      else Inr 0)"

definition sample_gen_hash :: "string \<Rightarrow> string \<Rightarrow> string" where
  "sample_gen_hash slt password = ''sample$'' @ rev password"

definition sample_check_hash :: "string \<Rightarrow> string \<Rightarrow> bool" where
  "sample_check_hash pwhash password = (pwhash = ''sample$'' @ rev password)"

definition sample_libs :: libs where
  "sample_libs =
     \<lparr>lib_polarity = sample_polarity, lib_gen_hash = sample_gen_hash,
      lib_check_hash = sample_check_hash\<rparr>"

definition empty_db :: db where
  "empty_db = \<lparr>users = [], chat_rows = [], feedback_rows = []\<rparr>"

definition anonymous :: session where
  "anonymous = \<lparr>user_id = None, user_name = None, flashes = []\<rparr>"

definition ann :: session where
  "ann = \<lparr>user_id = Some 1, user_name = Some ''Ann'', flashes = []\<rparr>"

definition accepting :: env where
  "accepting = \<lparr>commit_ok = True, now = 7, salt = ''s''\<rparr>"

definition refusing :: env where
  "refusing = \<lparr>commit_ok = False, now = 7, salt = ''s''\<rparr>"

definition post_form :: "string \<Rightarrow> (string \<times> string) list \<Rightarrow> request" where
  "post_form p kvs = \<lparr>meth = POST, path = p, form = kvs, json = None\<rparr>"

definition get_page :: "string \<Rightarrow> request" where
  "get_page p = \<lparr>meth = GET, path = p, form = [], json = None\<rparr>"

definition sample_feedback :: "nat \<Rightarrow> nat \<Rightarrow> string \<Rightarrow> feedback" where
  "sample_feedback i uid label =
     \<lparr>f_id = i, f_user_id = uid, f_question = ''How do I vote?'', f_feedback_text = ''noted'',
      f_sentiment = label, f_timestamp = i\<rparr>"

definition sample_db :: db where
  "sample_db =
     \<lparr>users =
        [\<lparr>u_id = 1, u_full_name = ''Ann'', u_email = ''ann@example.org'',
          u_password_hash = ''sample$terces'', u_created_at = 0\<rparr>,
         \<lparr>u_id = 2, u_full_name = ''Bob'', u_email = ''bob@example.org'',
          u_password_hash = ''sample$drowssap'', u_created_at = 0\<rparr>],
      chat_rows = [],
      feedback_rows =
        [sample_feedback 1 1 ''Positive'', sample_feedback 2 2 ''Negative'',
         sample_feedback 3 1 ''positive'', sample_feedback 4 1 ''NEGATIVE'',
         sample_feedback 5 2 ''Neutral'']\<rparr>"

text \<open>
  The parts of an outcome: the response, and the tables the next request finds (the
  database session itself ends with the request).
\<close>

definition response_of :: "outcome \<Rightarrow> py_exception + response" where
  "response_of out = fst out"

definition db_after :: "outcome \<Rightarrow> db" where
  "db_after out = tables (snd (snd out))"

definition signup_ann :: request where
  "signup_ann =
     post_form ''/signup''
       [(''full_name'', ''Ann''), (''email'', ''ann@example.org''), (''password'', ''secret'')]"

definition signup_ann_again :: request where
  "signup_ann_again =
     post_form ''/signup''
       [(''full_name'', ''Ann B.''), (''email'', '' ann@example.org ''), (''password'', ''other'')]"

definition signup_blank :: request where
  "signup_blank =
     post_form ''/signup'' [(''full_name'', ''   ''), (''email'', ''ann@example.org'')]"

definition login_ann :: "string \<Rightarrow> request" where
  "login_ann password =
     post_form ''/login'' [(''email'', ''ann@example.org''), (''password'', password)]"

definition feedback_form :: "string \<Rightarrow> request" where
  "feedback_form text =
     post_form ''/submit_feedback'' [(''question'', ''How do I vote?''), (''feedback'', text)]"

section \<open>Keyword tests\<close>

lemma any_word_in_iff: "any_word_in words s \<longleftrightarrow> (\<exists>w \<in> set words. sublist w s)"
  by (simp add: any_word_in_def list_ex_iff)

lemma any_word_in_spec: "any_word_in words s = spec_contains_any (set words) s"
  by (simp add: any_word_in_iff spec_contains_any_def)

lemma any_word_in_substring:
  "any_word_in words s \<longleftrightarrow> (\<exists>w ps ss. w \<in> set words \<and> s = ps @ w @ ss)"
  by (auto simp: any_word_in_iff sublist_def)

lemma word_sets:
  "set license_words = {''license'', ''permit'', ''registration'', ''id''}"
  "set voting_words = {''vote'', ''voting'', ''election'', ''ballot''}"
  "set tax_words = {''tax'', ''taxes'', ''irs'', ''refund''}"
  "set social_words = {''social'', ''benefits'', ''assistance'', ''welfare'', ''food'', ''medicaid''}"
  "set legal_words = {''court'', ''legal'', ''lawsuit'', ''ticket'', ''fine''}"
  "set negative_words = spec_negative_set"
  "set positive_words = spec_positive_set"
  by (simp_all add: license_words_def voting_words_def tax_words_def social_words_def
      legal_words_def negative_words_def positive_words_def spec_negative_set_def
      spec_positive_set_def)

lemma templates_distinct:
  "distinct [licenses_template, voting_template, tax_template, social_template,
             legal_template, default_template]"
  by (simp add: licenses_template_def voting_template_def tax_template_def
      social_template_def legal_template_def default_template_def)

lemma get_ai_response_spec: "get_ai_response q = spec_responder q"
  by (simp add: get_ai_response_def spec_responder_def spec_keyword_sets_def Let_def
      any_word_in_spec word_sets)

lemma chat_sentiment_spec: "chat_sentiment s = spec_chat_classifier s"
  by (simp add: chat_sentiment_def spec_chat_classifier_def Let_def any_word_in_spec word_sets)

section \<open>The responder\<close>

text \<open>
  C1. For every question, \<open>get_ai_response\<close> lower-cases the input and answers with the
  reply of the first of the five keyword sets, in the order licenses, voting, tax, social
  services, legal, that has a keyword contained in it, and with the default reply when
  none has; the six replies differ from one another, so the reply tells which set was
  first. A question that matches the voting set and the tax set and not the licenses set
  gets the voting reply, which is not the tax reply.
\<close>

theorem get_ai_response_priority:
  "get_ai_response q = spec_responder q \<and>
   (get_ai_response q = licenses_template \<longleftrightarrow>
      spec_contains_any {''license'', ''permit'', ''registration'', ''id''} (lower q)) \<and>
   (get_ai_response q = voting_template \<longleftrightarrow>
      \<not> spec_contains_any {''license'', ''permit'', ''registration'', ''id''} (lower q) \<and>
      spec_contains_any {''vote'', ''voting'', ''election'', ''ballot''} (lower q)) \<and>
   (get_ai_response q = tax_template \<longleftrightarrow>
      \<not> spec_contains_any {''license'', ''permit'', ''registration'', ''id''} (lower q) \<and>
      \<not> spec_contains_any {''vote'', ''voting'', ''election'', ''ballot''} (lower q) \<and>
      spec_contains_any {''tax'', ''taxes'', ''irs'', ''refund''} (lower q)) \<and>
   (get_ai_response q = default_template \<longleftrightarrow>
      \<not> spec_contains_any {''license'', ''permit'', ''registration'', ''id''} (lower q) \<and>
      \<not> spec_contains_any {''vote'', ''voting'', ''election'', ''ballot''} (lower q) \<and>
      \<not> spec_contains_any {''tax'', ''taxes'', ''irs'', ''refund''} (lower q) \<and>
      \<not> spec_contains_any
           {''social'', ''benefits'', ''assistance'', ''welfare'', ''food'', ''medicaid''}
           (lower q) \<and>
      \<not> spec_contains_any {''court'', ''legal'', ''lawsuit'', ''ticket'', ''fine''} (lower q)) \<and>
   (\<not> spec_contains_any {''license'', ''permit'', ''registration'', ''id''} (lower q) \<and>
    spec_contains_any {''vote'', ''voting'', ''election'', ''ballot''} (lower q) \<and>
    spec_contains_any {''tax'', ''taxes'', ''irs'', ''refund''} (lower q)
    \<longrightarrow> get_ai_response q = voting_template \<and> get_ai_response q \<noteq> tax_template)"
  using templates_distinct
  by (auto simp: get_ai_response_spec spec_responder_def spec_keyword_sets_def)

theorem get_ai_response_priority_witness:
  "\<not> spec_contains_any {''license'', ''permit'', ''registration'', ''id''}
       (lower ''Can I vote after paying my tax?'') \<and>
   spec_contains_any {''vote'', ''voting'', ''election'', ''ballot''}
       (lower ''Can I vote after paying my tax?'') \<and>
   spec_contains_any {''tax'', ''taxes'', ''irs'', ''refund''}
       (lower ''Can I vote after paying my tax?'') \<and>
   get_ai_response ''Can I vote after paying my tax?'' = voting_template \<and>
   get_ai_response ''Can I vote after paying my tax?'' \<noteq> tax_template"
proof -
  have h1: "\<not> spec_contains_any {''license'', ''permit'', ''registration'', ''id''}
       (lower ''Can I vote after paying my tax?'')"
    by code_simp
  have h2: "spec_contains_any {''vote'', ''voting'', ''election'', ''ballot''}
       (lower ''Can I vote after paying my tax?'')"
    by code_simp
  have h3: "spec_contains_any {''tax'', ''taxes'', ''irs'', ''refund''}
       (lower ''Can I vote after paying my tax?'')"
    by code_simp
  from get_ai_response_priority [of "''Can I vote after paying my tax?''"] h1 h2 h3
  show ?thesis by blast
qed

section \<open>The chat-turn classifier\<close>

text \<open>
  C3. For every chat input, the chat-turn classifier lower-cases the input and answers
  \<open>negative\<close> when it contains one of the eight negative words, otherwise \<open>positive\<close>
  when it contains one of the eight positive words, otherwise \<open>neutral\<close>; an input that
  contains a word of each kind is \<open>negative\<close>.
\<close>

theorem chat_sentiment_priority:
  "chat_sentiment s = spec_chat_classifier s \<and>
   (chat_sentiment s = ''negative'' \<longleftrightarrow> spec_contains_any spec_negative_set (lower s)) \<and>
   (chat_sentiment s = ''positive'' \<longleftrightarrow>
      \<not> spec_contains_any spec_negative_set (lower s) \<and>
      spec_contains_any spec_positive_set (lower s)) \<and>
   (chat_sentiment s = ''neutral'' \<longleftrightarrow>
      \<not> spec_contains_any spec_negative_set (lower s) \<and>
      \<not> spec_contains_any spec_positive_set (lower s)) \<and>
   (spec_contains_any spec_negative_set (lower s) \<and>
    spec_contains_any spec_positive_set (lower s) \<longrightarrow> chat_sentiment s = ''negative'')"
  by (simp add: chat_sentiment_spec spec_chat_classifier_def)

theorem chat_sentiment_priority_witness:
  "spec_contains_any spec_negative_set (lower ''I love the idea but hate the queue'') \<and>
   spec_contains_any spec_positive_set (lower ''I love the idea but hate the queue'') \<and>
   chat_sentiment ''I love the idea but hate the queue'' = ''negative''"
proof -
  have h1: "spec_contains_any spec_negative_set (lower ''I love the idea but hate the queue'')"
    by code_simp
  have h2: "spec_contains_any spec_positive_set (lower ''I love the idea but hate the queue'')"
    by code_simp
  from chat_sentiment_priority [of "''I love the idea but hate the queue''"] h1 h2
  show ?thesis by blast
qed

section \<open>Substring containment\<close>

text \<open>
  C10. The keyword tests of \<open>get_ai_response\<close> and of the chat-turn classifier are
  substring tests on the lower-cased input: a keyword list matches exactly when one of its
  words occurs somewhere in the input, also inside a longer word. So \<open>id\<close> inside
  \<open>president\<close> selects the licenses reply and \<open>bad\<close> inside \<open>badminton\<close> gives
  \<open>negative\<close>, although neither keyword is a whole word of the input.
\<close>

theorem keyword_tests_are_substring_tests:
  "(any_word_in words (lower q) \<longleftrightarrow>
      (\<exists>w ps ss. w \<in> set words \<and> lower q = ps @ w @ ss)) \<and>
   (w \<in> set license_words \<and> lower q = ps @ w @ ss
      \<longrightarrow> get_ai_response q = licenses_template) \<and>
   (w \<in> set negative_words \<and> lower q = ps @ w @ ss
      \<longrightarrow> chat_sentiment q = ''negative'') \<and>
   get_ai_response ''Who is the president?'' = licenses_template \<and>
   \<not> whole_word_member license_words (lower ''Who is the president?'') \<and>
   chat_sentiment ''We play badminton'' = ''negative'' \<and>
   \<not> whole_word_member negative_words (lower ''We play badminton'')"
proof (intro conjI impI)
  show "any_word_in words (lower q) \<longleftrightarrow>
      (\<exists>w ps ss. w \<in> set words \<and> lower q = ps @ w @ ss)"
    by (rule any_word_in_substring)
next
  assume "w \<in> set license_words \<and> lower q = ps @ w @ ss"
  then have "any_word_in license_words (lower q)"
    unfolding any_word_in_substring by blast
  then show "get_ai_response q = licenses_template"
    by (simp add: get_ai_response_def)
next
  assume "w \<in> set negative_words \<and> lower q = ps @ w @ ss"
  then have "any_word_in negative_words (lower q)"
    unfolding any_word_in_substring by blast
  then show "chat_sentiment q = ''negative''"
    by (simp add: chat_sentiment_def)
next
  show "get_ai_response ''Who is the president?'' = licenses_template"
    by code_simp
next
  show "\<not> whole_word_member license_words (lower ''Who is the president?'')"
    by code_simp
next
  show "chat_sentiment ''We play badminton'' = ''negative''"
    by code_simp
next
  show "\<not> whole_word_member negative_words (lower ''We play badminton'')"
    by code_simp
qed

theorem keyword_tests_are_substring_tests_witness:
  "''id'' \<in> set license_words \<and> lower ''President'' = ''pres'' @ ''id'' @ ''ent'' \<and>
   get_ai_response ''President'' = licenses_template \<and>
   ''bad'' \<in> set negative_words \<and> lower ''Badminton'' = [] @ ''bad'' @ ''minton'' \<and>
   chat_sentiment ''Badminton'' = ''negative''"
proof -
  have h1: "''id'' \<in> set license_words \<and> lower ''President'' = ''pres'' @ ''id'' @ ''ent''"
    by code_simp
  have h2: "''bad'' \<in> set negative_words \<and> lower ''Badminton'' = [] @ ''bad'' @ ''minton''"
    by code_simp
  from keyword_tests_are_substring_tests
         [of license_words "''President''" "''id''" "''pres''" "''ent''"] h1
  have c1: "get_ai_response ''President'' = licenses_template" by blast
  from keyword_tests_are_substring_tests
         [of negative_words "''Badminton''" "''bad''" "[]" "''minton''"] h2
  have c2: "chat_sentiment ''Badminton'' = ''negative''" by blast
  from h1 h2 c1 c2 show ?thesis by blast
qed

section \<open>The feedback classifier\<close>

text \<open>
  C2. For every feedback text, \<open>analyze_sentiment\<close> answers \<open>Positive\<close> exactly when the
  scorer returns a polarity above \<open>0.1\<close>, \<open>Negative\<close> exactly when it returns one below
  \<open>-0.1\<close>, and \<open>Neutral\<close> otherwise; when the scorer raises, the answer is \<open>Neutral\<close>.
  The result is a label in every case: no exception leaves the function.
\<close>

theorem analyze_sentiment_buckets:
  "(analyze_sentiment polarity_of text = ''Positive'' \<longleftrightarrow>
      (\<exists>p. polarity_of text = Inr p \<and> p > float_0_1)) \<and>
   (analyze_sentiment polarity_of text = ''Negative'' \<longleftrightarrow>
      (\<exists>p. polarity_of text = Inr p \<and> p < - float_0_1)) \<and>
   (analyze_sentiment polarity_of text = ''Neutral'' \<longleftrightarrow>
      (\<exists>p. polarity_of text = Inr p \<and> - float_0_1 \<le> p \<and> p \<le> float_0_1) \<or>
      (\<exists>ex. polarity_of text = Inl ex)) \<and>
   (polarity_of text = Inl ex \<longrightarrow> analyze_sentiment polarity_of text = ''Neutral'')"
proof -
  have pos: "0 < float_0_1" by (simp add: float_0_1_def)
  show ?thesis
  proof (cases "polarity_of text")
    case (Inl a)
    then show ?thesis by (simp add: analyze_sentiment_def)
  next
    case (Inr p)
    with pos show ?thesis by (auto simp: analyze_sentiment_def)
  qed
qed

theorem analyze_sentiment_buckets_witness:
  "sample_polarity ''it crashed'' = Inl (ScorerError ''lexicon not found'') \<and>
   analyze_sentiment sample_polarity ''it crashed'' = ''Neutral''"
proof -
  have h: "sample_polarity ''it crashed'' = Inl (ScorerError ''lexicon not found'')"
    by (simp add: sample_polarity_def sublist_Cons_right)
  from analyze_sentiment_buckets
         [of sample_polarity "''it crashed''" "ScorerError ''lexicon not found''"] h
  show ?thesis by blast
qed

lemma analyze_sentiment_samples:
  "analyze_sentiment (\<lambda>t. Inr (1 / 2)) t = ''Positive''"
  "analyze_sentiment (\<lambda>t. Inr (- 1 / 2)) t = ''Negative''"
  "analyze_sentiment (\<lambda>t. Inr 0) t = ''Neutral''"
  "analyze_sentiment (\<lambda>t. Inr float_0_1) t = ''Neutral''"
  by (simp_all add: analyze_sentiment_def float_0_1_def)

lemma analyze_sentiment_range:
  "analyze_sentiment polarity_of text \<in> {''Positive'', ''Negative'', ''Neutral''}"
  by (simp add: analyze_sentiment_def split: sum.split)

section \<open>The dashboard statistics\<close>

lemma tally_positive:
  "positive (tally rows st) =
     positive st + length (filter (\<lambda>f. lower (f_sentiment f) = ''positive'') rows)"
  by (induction rows arbitrary: st) (simp_all add: Let_def)

lemma tally_negative:
  "negative (tally rows st) =
     negative st + length (filter (\<lambda>f. lower (f_sentiment f) = ''negative'') rows)"
  by (induction rows arbitrary: st) (simp_all add: Let_def)

lemma tally_neutral:
  "neutral (tally rows st) =
     neutral st +
     length (filter (\<lambda>f. lower (f_sentiment f) \<noteq> ''positive'' \<and>
                          lower (f_sentiment f) \<noteq> ''negative'') rows)"
  by (induction rows arbitrary: st) (simp_all add: Let_def)

lemma tally_total: "total (tally rows st) = total st"
  by (induction rows arbitrary: st) (simp_all add: Let_def)

lemma neutral_when_labelled:
  "list_all (\<lambda>f. lower (f_sentiment f) = ''positive'' \<or> lower (f_sentiment f) = ''negative'' \<or>
                 lower (f_sentiment f) = ''neutral'') rows \<Longrightarrow>
   filter (\<lambda>f. lower (f_sentiment f) \<noteq> ''positive'' \<and> lower (f_sentiment f) \<noteq> ''negative'') rows
   = filter (\<lambda>f. lower (f_sentiment f) = ''neutral'') rows"
  by (induction rows) auto

text \<open>
  C9. For a logged-in user, \<open>get_feedback_stats\<close> reads exactly the feedback rows of that
  user, counts as positive and negative the rows whose label is \<open>positive\<close> or
  \<open>negative\<close> whatever its case, counts every other row as neutral (the rows labelled
  \<open>neutral\<close> when every label is one of the three), returns the number of rows as total,
  and returns four zeros when the user has no rows.
\<close>

theorem get_feedback_stats_tally:
  "user_id sess = Some uid \<longrightarrow>
     set (feedback_of d uid) = {f \<in> set (feedback_rows d). f_user_id f = uid} \<and>
     positive (get_feedback_stats sess d) =
       length (filter (\<lambda>f. lower (f_sentiment f) = ''positive'') (feedback_of d uid)) \<and>
     negative (get_feedback_stats sess d) =
       length (filter (\<lambda>f. lower (f_sentiment f) = ''negative'') (feedback_of d uid)) \<and>
     neutral (get_feedback_stats sess d) =
       length (filter (\<lambda>f. lower (f_sentiment f) \<noteq> ''positive'' \<and>
                            lower (f_sentiment f) \<noteq> ''negative'') (feedback_of d uid)) \<and>
     total (get_feedback_stats sess d) = length (feedback_of d uid) \<and>
     (list_all (\<lambda>f. lower (f_sentiment f) = ''positive'' \<or>
                     lower (f_sentiment f) = ''negative'' \<or>
                     lower (f_sentiment f) = ''neutral'') (feedback_of d uid) \<longrightarrow>
        neutral (get_feedback_stats sess d) =
          length (filter (\<lambda>f. lower (f_sentiment f) = ''neutral'') (feedback_of d uid))) \<and>
     (feedback_of d uid = [] \<longrightarrow>
        get_feedback_stats sess d = \<lparr>positive = 0, neutral = 0, negative = 0, total = 0\<rparr>)"
proof (intro impI conjI)
  assume h: "user_id sess = Some uid"
  show "set (feedback_of d uid) = {f \<in> set (feedback_rows d). f_user_id f = uid}"
    by (simp add: feedback_of_def)
  from h show "positive (get_feedback_stats sess d) =
      length (filter (\<lambda>f. lower (f_sentiment f) = ''positive'') (feedback_of d uid))"
    by (simp add: get_feedback_stats_def Let_def tally_positive)
  from h show "negative (get_feedback_stats sess d) =
      length (filter (\<lambda>f. lower (f_sentiment f) = ''negative'') (feedback_of d uid))"
    by (simp add: get_feedback_stats_def Let_def tally_negative)
  from h show neu: "neutral (get_feedback_stats sess d) =
      length (filter (\<lambda>f. lower (f_sentiment f) \<noteq> ''positive'' \<and>
                           lower (f_sentiment f) \<noteq> ''negative'') (feedback_of d uid))"
    by (simp add: get_feedback_stats_def Let_def tally_neutral)
  from h show "total (get_feedback_stats sess d) = length (feedback_of d uid)"
    by (simp add: get_feedback_stats_def Let_def tally_total)
  show "neutral (get_feedback_stats sess d) =
      length (filter (\<lambda>f. lower (f_sentiment f) = ''neutral'') (feedback_of d uid))"
    if "list_all (\<lambda>f. lower (f_sentiment f) = ''positive'' \<or>
                     lower (f_sentiment f) = ''negative'' \<or>
                     lower (f_sentiment f) = ''neutral'') (feedback_of d uid)"
    using that neu by (simp add: neutral_when_labelled)
  from h show "get_feedback_stats sess d = \<lparr>positive = 0, neutral = 0, negative = 0, total = 0\<rparr>"
    if "feedback_of d uid = []"
    using that by (simp add: get_feedback_stats_def)
qed

theorem get_feedback_stats_tally_witness:
  "user_id ann = Some 1 \<and>
   get_feedback_stats ann sample_db = \<lparr>positive = 2, neutral = 0, negative = 1, total = 3\<rparr> \<and>
   feedback_of empty_db 1 = [] \<and>
   get_feedback_stats ann empty_db = \<lparr>positive = 0, neutral = 0, negative = 0, total = 0\<rparr>"
proof -
  have h: "user_id ann = Some 1"
    by (simp add: ann_def)
  have rows: "feedback_of sample_db 1 =
      [sample_feedback 1 1 ''Positive'', sample_feedback 3 1 ''positive'',
       sample_feedback 4 1 ''NEGATIVE'']"
    by (simp add: feedback_of_def sample_db_def sample_feedback_def)
  have labels: "lower ''Positive'' = ''positive''" "lower ''positive'' = ''positive''"
    "lower ''NEGATIVE'' = ''negative''"
    by code_simp+
  have empty: "feedback_of empty_db 1 = []"
    by (simp add: feedback_of_def empty_db_def)
  from get_feedback_stats_tally [of ann 1 sample_db] h
  have a: "positive (get_feedback_stats ann sample_db) =
       length (filter (\<lambda>f. lower (f_sentiment f) = ''positive'') (feedback_of sample_db 1))"
    and b: "neutral (get_feedback_stats ann sample_db) =
       length (filter (\<lambda>f. lower (f_sentiment f) \<noteq> ''positive'' \<and>
                            lower (f_sentiment f) \<noteq> ''negative'') (feedback_of sample_db 1))"
    and c: "negative (get_feedback_stats ann sample_db) =
       length (filter (\<lambda>f. lower (f_sentiment f) = ''negative'') (feedback_of sample_db 1))"
    and d: "total (get_feedback_stats ann sample_db) = length (feedback_of sample_db 1)"
    by blast+
  have "positive (get_feedback_stats ann sample_db) = 2"
    and "neutral (get_feedback_stats ann sample_db) = 0"
    and "negative (get_feedback_stats ann sample_db) = 1"
    and "total (get_feedback_stats ann sample_db) = 3"
    unfolding a b c d rows by (simp_all add: sample_feedback_def labels)
  then have full: "get_feedback_stats ann sample_db =
      \<lparr>positive = 2, neutral = 0, negative = 1, total = 3\<rparr>"
    by simp
  from get_feedback_stats_tally [of ann 1 empty_db] h empty
  have "get_feedback_stats ann empty_db = \<lparr>positive = 0, neutral = 0, negative = 0, total = 0\<rparr>"
    by blast
  with h full empty show ?thesis by blast
qed

section \<open>Requests without a session\<close>

text \<open>
  C8. For every request whose session has no \<open>user_id\<close>, a GET of \<open>/dashboard\<close> is
  answered with a redirect to \<open>/login\<close> and a POST to \<open>/chat\<close> with the JSON error and
  status 401, not a redirect. The other pages behind the session (\<open>/home\<close>, GET \<open>/chat\<close>,
  \<open>/submit_feedback\<close>) redirect to \<open>/login\<close> as well.
\<close>

theorem unauthenticated_page_versus_api:
  "user_id sess = None \<longrightarrow>
     (meth req = GET \<and> path req = ''/dashboard'' \<longrightarrow>
        dispatch l e req (sess, d) = (Inr (Redirect ''/login''), sess, new_session d)) \<and>
     (meth req = POST \<and> path req = ''/chat'' \<longrightarrow>
        dispatch l e req (sess, d) =
          (Inr (Jsonify [(''error'', ''Authentication required'')] 401), sess, new_session d)) \<and>
     (meth req = GET \<and> (path req = ''/home'' \<or> path req = ''/chat'') \<longrightarrow>
        dispatch l e req (sess, d) = (Inr (Redirect ''/login''), sess, new_session d)) \<and>
     (meth req = POST \<and> path req = ''/submit_feedback'' \<longrightarrow>
        dispatch l e req (sess, d) = (Inr (Redirect ''/login''), sess, new_session d))"
  by (auto simp: dispatch_def route_def dashboard_def chat_api_def home_def chat_def
      submit_feedback_def)

theorem unauthenticated_page_versus_api_witness:
  "user_id anonymous = None \<and>
   meth (get_page ''/dashboard'') = GET \<and> path (get_page ''/dashboard'') = ''/dashboard'' \<and>
   dispatch sample_libs accepting (get_page ''/dashboard'') (anonymous, sample_db) =
     (Inr (Redirect ''/login''), anonymous, new_session sample_db) \<and>
   meth (post_form ''/chat'' [(''message'', ''How do I vote?'')]) = POST \<and>
   path (post_form ''/chat'' [(''message'', ''How do I vote?'')]) = ''/chat'' \<and>
   dispatch sample_libs accepting (post_form ''/chat'' [(''message'', ''How do I vote?'')])
       (anonymous, sample_db) =
     (Inr (Jsonify [(''error'', ''Authentication required'')] 401), anonymous,
      new_session sample_db)"
proof -
  have h: "user_id anonymous = None"
    by (simp add: anonymous_def)
  have g: "meth (get_page ''/dashboard'') = GET \<and> path (get_page ''/dashboard'') = ''/dashboard''"
    by (simp add: get_page_def)
  have p: "meth (post_form ''/chat'' [(''message'', ''How do I vote?'')]) = POST \<and>
           path (post_form ''/chat'' [(''message'', ''How do I vote?'')]) = ''/chat''"
    by (simp add: post_form_def)
  from unauthenticated_page_versus_api
         [of anonymous "get_page ''/dashboard''" sample_libs accepting sample_db] h g
  have c1: "dispatch sample_libs accepting (get_page ''/dashboard'') (anonymous, sample_db) =
     (Inr (Redirect ''/login''), anonymous, new_session sample_db)"
    by blast
  from unauthenticated_page_versus_api
         [of anonymous "post_form ''/chat'' [(''message'', ''How do I vote?'')]"
             sample_libs accepting sample_db] h p
  have c2: "dispatch sample_libs accepting (post_form ''/chat'' [(''message'', ''How do I vote?'')])
       (anonymous, sample_db) =
     (Inr (Jsonify [(''error'', ''Authentication required'')] 401), anonymous,
      new_session sample_db)"
    by blast
  from h g p c1 c2 show ?thesis by blast
qed

section \<open>Signing up and logging in\<close>

lemma find_append_new:
  "find P (xs @ [x]) = (case find P xs of Some y \<Rightarrow> Some y | None \<Rightarrow> if P x then Some x else None)"
  by (induction xs) simp_all

lemma signup_invalid:
  assumes "meth req = POST"
    and "strip (form_get req ''full_name'' '''') = [] \<or> strip (form_get req ''email'' '''') = [] \<or>
         form_get req ''password'' '''' = []"
  shows "signup gh e req (sess, d) =
     (Inr (render_template ''signup.html''),
      flash ''Please fill in all fields.'' ''error'' sess, new_session d)"
  using assms by (auto simp: signup_def Let_def)

lemma signup_duplicate:
  assumes "meth req = POST"
    and "strip (form_get req ''full_name'' '''') \<noteq> []"
    and "strip (form_get req ''email'' '''') \<noteq> []"
    and "form_get req ''password'' '''' \<noteq> []"
    and "user_by_email d (strip (form_get req ''email'' '''')) = Some u"
  shows "signup gh e req (sess, d) =
     (Inr (render_template ''signup.html''),
      flash ''Email already registered. Please login instead.'' ''error'' sess, new_session d)"
  using assms by (simp add: signup_def Let_def)

lemma signup_success:
  assumes "meth req = POST"
    and "strip (form_get req ''full_name'' '''') \<noteq> []"
    and "strip (form_get req ''email'' '''') \<noteq> []"
    and "form_get req ''password'' '''' \<noteq> []"
    and "user_by_email d (strip (form_get req ''email'' '''')) = None"
    and "commit_ok e"
  shows "signup gh e req (sess, d) =
     (Inr (Redirect ''/login''),
      flash ''Account created successfully! Please log in.'' ''success'' sess,
      new_session (d\<lparr>users := users d @
        [\<lparr>u_id = next_id (map u_id (users d)),
          u_full_name = strip (form_get req ''full_name'' ''''),
          u_email = strip (form_get req ''email'' ''''),
          u_password_hash = gh (salt e) (form_get req ''password'' ''''),
          u_created_at = now e\<rparr>]\<rparr>))"
  using assms by (simp add: signup_def Let_def db_commit_def db_add_def new_session_def)

lemma signup_refused:
  assumes "meth req = POST"
    and "strip (form_get req ''full_name'' '''') \<noteq> []"
    and "strip (form_get req ''email'' '''') \<noteq> []"
    and "form_get req ''password'' '''' \<noteq> []"
    and "user_by_email d (strip (form_get req ''email'' '''')) = None"
    and "\<not> commit_ok e"
  shows "signup gh e req (sess, d) =
     (Inr (render_template ''signup.html''),
      flash ''Error creating account. Please try again.'' ''error'' sess, new_session d)"
  using assms
  by (simp add: signup_def Let_def db_commit_def db_add_def new_session_def db_rollback_def)

lemma signup_redirect_iff:
  "response_of (signup gh e req (sess, d)) = Inr (Redirect ''/login'') \<longleftrightarrow>
     meth req = POST \<and> strip (form_get req ''full_name'' '''') \<noteq> [] \<and>
     strip (form_get req ''email'' '''') \<noteq> [] \<and> form_get req ''password'' '''' \<noteq> [] \<and>
     user_by_email d (strip (form_get req ''email'' '''')) = None \<and> commit_ok e"
  by (auto simp: response_of_def signup_def Let_def db_commit_def render_template_def
      split: option.splits)

lemma user_by_email_after_insert:
  "user_by_email d em = None \<Longrightarrow>
   user_by_email (d\<lparr>users := users d @ [u]\<rparr>) em = (if u_email u = em then Some u else None)"
  by (simp add: user_by_email_def find_append_new)

lemma strip_samples:
  "strip ''Ann'' = ''Ann''" "strip ''Ann B.'' = ''Ann B.''" "strip ''   '' = []"
  "strip ''ann@example.org'' = ''ann@example.org''"
  "strip '' ann@example.org '' = ''ann@example.org''"
  "strip ''great help'' = ''great help''"
  "strip [] = []"
  by code_simp+

text \<open>
  C6. When a signup has succeeded, a second signup with the same email (after trimming)
  and any non-empty full name and password is answered with the
  \<open>Email already registered\<close> error, whatever the name and password are, and leaves the
  tables as they were, so no second user row is written. A signup with an empty or
  missing field is answered with the \<open>Please fill in all fields\<close> error whatever the
  tables hold, and leaves them as they were.
\<close>

theorem second_signup_is_duplicate:
  "(response_of (signup gh1 e1 req1 (sess1, d)) = Inr (Redirect ''/login'') \<and>
    meth req2 = POST \<and>
    strip (form_get req2 ''full_name'' '''') \<noteq> [] \<and>
    form_get req2 ''password'' '''' \<noteq> [] \<and>
    strip (form_get req2 ''email'' '''') = strip (form_get req1 ''email'' '''')
    \<longrightarrow>
      signup gh2 e2 req2 (sess2, db_after (signup gh1 e1 req1 (sess1, d))) =
        (Inr (render_template ''signup.html''),
         flash ''Email already registered. Please login instead.'' ''error'' sess2,
         new_session (db_after (signup gh1 e1 req1 (sess1, d))))) \<and>
   (meth req = POST \<and>
    (strip (form_get req ''full_name'' '''') = [] \<or> strip (form_get req ''email'' '''') = [] \<or>
     form_get req ''password'' '''' = [])
    \<longrightarrow>
      signup gh e req (sess, d') =
        (Inr (render_template ''signup.html''),
         flash ''Please fill in all fields.'' ''error'' sess, new_session d'))"
proof (intro conjI impI)
  assume h: "response_of (signup gh1 e1 req1 (sess1, d)) = Inr (Redirect ''/login'') \<and>
    meth req2 = POST \<and>
    strip (form_get req2 ''full_name'' '''') \<noteq> [] \<and>
    form_get req2 ''password'' '''' \<noteq> [] \<and>
    strip (form_get req2 ''email'' '''') = strip (form_get req1 ''email'' '''')"
  let ?em = "strip (form_get req1 ''email'' '''')"
  let ?u = "\<lparr>u_id = next_id (map u_id (users d)),
          u_full_name = strip (form_get req1 ''full_name'' ''''),
          u_email = ?em,
          u_password_hash = gh1 (salt e1) (form_get req1 ''password'' ''''),
          u_created_at = now e1\<rparr>"
  from h have ok: "meth req1 = POST" "strip (form_get req1 ''full_name'' '''') \<noteq> []"
    "?em \<noteq> []" "form_get req1 ''password'' '''' \<noteq> []"
    "user_by_email d ?em = None" "commit_ok e1"
    by (simp_all add: signup_redirect_iff)
  have after: "db_after (signup gh1 e1 req1 (sess1, d)) = d\<lparr>users := users d @ [?u]\<rparr>"
    by (simp add: signup_success [OF ok] db_after_def new_session_def)
  have found: "user_by_email (d\<lparr>users := users d @ [?u]\<rparr>) ?em = Some ?u"
    using ok(5) by (simp add: user_by_email_after_insert)
  from h have second: "meth req2 = POST" "strip (form_get req2 ''full_name'' '''') \<noteq> []"
    "strip (form_get req2 ''email'' '''') \<noteq> []" "form_get req2 ''password'' '''' \<noteq> []"
    using ok(3) by simp_all
  from h found
  have "user_by_email (d\<lparr>users := users d @ [?u]\<rparr>) (strip (form_get req2 ''email'' '''')) = Some ?u"
    by simp
  from signup_duplicate [OF second this]
  show "signup gh2 e2 req2 (sess2, db_after (signup gh1 e1 req1 (sess1, d))) =
        (Inr (render_template ''signup.html''),
         flash ''Email already registered. Please login instead.'' ''error'' sess2,
         new_session (db_after (signup gh1 e1 req1 (sess1, d))))"
    by (simp add: after)
next
  assume "meth req = POST \<and>
    (strip (form_get req ''full_name'' '''') = [] \<or> strip (form_get req ''email'' '''') = [] \<or>
     form_get req ''password'' '''' = [])"
  then show "signup gh e req (sess, d') =
        (Inr (render_template ''signup.html''),
         flash ''Please fill in all fields.'' ''error'' sess, new_session d')"
    by (simp add: signup_invalid)
qed

lemma sample_form_fields:
  "meth signup_ann = POST"
  "form_get signup_ann ''full_name'' '''' = ''Ann''"
  "form_get signup_ann ''email'' '''' = ''ann@example.org''"
  "form_get signup_ann ''password'' '''' = ''secret''"
  "meth signup_ann_again = POST"
  "form_get signup_ann_again ''full_name'' '''' = ''Ann B.''"
  "form_get signup_ann_again ''email'' '''' = '' ann@example.org ''"
  "form_get signup_ann_again ''password'' '''' = ''other''"
  "meth signup_blank = POST"
  "form_get signup_blank ''full_name'' '''' = ''   ''"
  "form_get signup_blank ''password'' '''' = []"
  "meth (login_ann p) = POST"
  "form_get (login_ann p) ''email'' '''' = ''ann@example.org''"
  "form_get (login_ann p) ''password'' '''' = p"
  "form_get (feedback_form t) ''question'' '''' = ''How do I vote?''"
  "form_get (feedback_form t) ''feedback'' '''' = t"
  by (simp_all add: signup_ann_def signup_ann_again_def signup_blank_def login_ann_def
      feedback_form_def post_form_def form_get_def)

theorem second_signup_is_duplicate_witness:
  "response_of (signup sample_gen_hash accepting signup_ann (anonymous, empty_db)) =
     Inr (Redirect ''/login'') \<and>
   meth signup_ann_again = POST \<and>
   strip (form_get signup_ann_again ''full_name'' '''') \<noteq> [] \<and>
   form_get signup_ann_again ''password'' '''' \<noteq> [] \<and>
   strip (form_get signup_ann_again ''email'' '''') = strip (form_get signup_ann ''email'' '''') \<and>
   signup sample_gen_hash accepting signup_ann_again
       (anonymous, db_after (signup sample_gen_hash accepting signup_ann (anonymous, empty_db))) =
     (Inr (render_template ''signup.html''),
      flash ''Email already registered. Please login instead.'' ''error'' anonymous,
      new_session (db_after (signup sample_gen_hash accepting signup_ann (anonymous, empty_db)))) \<and>
   meth signup_blank = POST \<and>
   strip (form_get signup_blank ''full_name'' '''') = [] \<and>
   signup sample_gen_hash accepting signup_blank (anonymous, sample_db) =
     (Inr (render_template ''signup.html''),
      flash ''Please fill in all fields.'' ''error'' anonymous, new_session sample_db)"
proof -
  have first: "response_of (signup sample_gen_hash accepting signup_ann (anonymous, empty_db)) =
     Inr (Redirect ''/login'')"
    by (simp add: signup_redirect_iff sample_form_fields strip_samples user_by_email_def
        empty_db_def accepting_def)
  have again: "meth signup_ann_again = POST \<and>
     strip (form_get signup_ann_again ''full_name'' '''') \<noteq> [] \<and>
     form_get signup_ann_again ''password'' '''' \<noteq> [] \<and>
     strip (form_get signup_ann_again ''email'' '''') = strip (form_get signup_ann ''email'' '''')"
    by (simp add: sample_form_fields strip_samples)
  have blank: "meth signup_blank = POST \<and> strip (form_get signup_blank ''full_name'' '''') = []"
    by (simp add: sample_form_fields strip_samples)
  note inst = second_signup_is_duplicate
    [of sample_gen_hash accepting signup_ann anonymous empty_db signup_ann_again
        sample_gen_hash accepting anonymous signup_blank sample_gen_hash accepting anonymous
        sample_db]
  from inst first again
  have c1: "signup sample_gen_hash accepting signup_ann_again
       (anonymous, db_after (signup sample_gen_hash accepting signup_ann (anonymous, empty_db))) =
     (Inr (render_template ''signup.html''),
      flash ''Email already registered. Please login instead.'' ''error'' anonymous,
      new_session (db_after (signup sample_gen_hash accepting signup_ann (anonymous, empty_db))))"
    by blast
  from inst blank
  have c2: "signup sample_gen_hash accepting signup_blank (anonymous, sample_db) =
     (Inr (render_template ''signup.html''),
      flash ''Please fill in all fields.'' ''error'' anonymous, new_session sample_db)"
    by blast
  from first again blank c1 c2 show ?thesis by blast
qed

lemma login_missing_field:
  assumes "meth lreq = POST"
    and "strip (form_get lreq ''email'' '''') = [] \<or> form_get lreq ''password'' '''' = []"
  shows "login check lreq (s, d) =
     (Inr (render_template ''login.html''),
      flash ''Please fill in all fields.'' ''error'' s, new_session d)"
  using assms by (auto simp: login_def Let_def)

lemma login_known_user:
  assumes "meth lreq = POST"
    and "strip (form_get lreq ''email'' '''') \<noteq> []"
    and "form_get lreq ''password'' '''' \<noteq> []"
    and "user_by_email d (strip (form_get lreq ''email'' '''')) = Some u"
  shows "login check lreq (s, d) =
     (if check (u_password_hash u) (form_get lreq ''password'' '''')
      then (Inr (Redirect ''/home''),
            flash ''Login successful!'' ''success''
              (s\<lparr>user_id := Some (u_id u), user_name := Some (u_full_name u)\<rparr>),
            new_session d)
      else (Inr (render_template ''login.html''),
            flash ''Invalid email or password.'' ''error'' s, new_session d))"
  using assms by (simp add: login_def Let_def)

lemma login_unknown_user:
  assumes "meth lreq = POST"
    and "strip (form_get lreq ''email'' '''') \<noteq> []"
    and "form_get lreq ''password'' '''' \<noteq> []"
    and "user_by_email d (strip (form_get lreq ''email'' '''')) = None"
  shows "login check lreq (s, d) =
     (Inr (render_template ''login.html''),
      flash ''Invalid email or password.'' ''error'' s, new_session d)"
  using assms by (simp add: login_def Let_def)

text \<open>
  C7. For valid signup inputs with a fresh email, an accepted commit and password
  functions where a hash verifies exactly the password it was made from: the signup
  succeeds; logging in afterwards with the same email and password succeeds and puts the
  id given at registration into the session, whatever the session was and however often
  it is done, since a login leaves the tables alone; logging in with a non-empty password
  that differs from the registered one fails with \<open>Invalid email or password\<close>; and
  logging in with an empty password fails with \<open>Please fill in all fields\<close>.
\<close>

theorem register_then_authenticate:
  assumes post: "meth req = POST"
    and name: "strip (form_get req ''full_name'' '''') \<noteq> []"
    and email: "strip (form_get req ''email'' '''') \<noteq> []"
    and pw: "form_get req ''password'' '''' \<noteq> []"
    and fresh: "user_by_email d (strip (form_get req ''email'' '''')) = None"
    and accepted: "commit_ok e"
    and verifies: "check (gh (salt e) (form_get req ''password'' '''')) (form_get req ''password'' '''')"
    and rejects: "\<forall>p. p \<noteq> form_get req ''password'' '''' \<longrightarrow>
                   \<not> check (gh (salt e) (form_get req ''password'' '''')) p"
    and lpost: "meth lreq = POST"
    and same: "strip (form_get lreq ''email'' '''') = strip (form_get req ''email'' '''')"
  shows "response_of (signup gh e req (sess, d)) = Inr (Redirect ''/login'') \<and>
     (form_get lreq ''password'' '''' = form_get req ''password'' '''' \<longrightarrow>
        login check lreq (s, db_after (signup gh e req (sess, d))) =
          (Inr (Redirect ''/home''),
           flash ''Login successful!'' ''success''
             (s\<lparr>user_id := Some (next_id (map u_id (users d))),
                user_name := Some (strip (form_get req ''full_name'' ''''))\<rparr>),
           new_session (db_after (signup gh e req (sess, d))))) \<and>
     (form_get lreq ''password'' '''' \<noteq> form_get req ''password'' '''' \<and>
      form_get lreq ''password'' '''' \<noteq> [] \<longrightarrow>
        login check lreq (s, db_after (signup gh e req (sess, d))) =
          (Inr (render_template ''login.html''),
           flash ''Invalid email or password.'' ''error'' s,
           new_session (db_after (signup gh e req (sess, d))))) \<and>
     (form_get lreq ''password'' '''' = [] \<longrightarrow>
        login check lreq (s, db_after (signup gh e req (sess, d))) =
          (Inr (render_template ''login.html''),
           flash ''Please fill in all fields.'' ''error'' s,
           new_session (db_after (signup gh e req (sess, d)))))"
proof -
  let ?u = "\<lparr>u_id = next_id (map u_id (users d)),
          u_full_name = strip (form_get req ''full_name'' ''''),
          u_email = strip (form_get req ''email'' ''''),
          u_password_hash = gh (salt e) (form_get req ''password'' ''''),
          u_created_at = now e\<rparr>"
  let ?d1 = "db_after (signup gh e req (sess, d))"
  have registered: "response_of (signup gh e req (sess, d)) = Inr (Redirect ''/login'')"
    using post name email pw fresh accepted by (simp add: signup_redirect_iff)
  have after: "?d1 = d\<lparr>users := users d @ [?u]\<rparr>"
    by (simp add: signup_success [OF post name email pw fresh accepted] db_after_def
        new_session_def)
  have found: "user_by_email ?d1 (strip (form_get lreq ''email'' '''')) = Some ?u"
    using fresh by (simp add: after same user_by_email_after_insert)
  have lemail: "strip (form_get lreq ''email'' '''') \<noteq> []"
    using email same by simp
  have right: "login check lreq (s, ?d1) =
          (Inr (Redirect ''/home''),
           flash ''Login successful!'' ''success''
             (s\<lparr>user_id := Some (next_id (map u_id (users d))),
                user_name := Some (strip (form_get req ''full_name'' ''''))\<rparr>),
           new_session ?d1)"
    if eq: "form_get lreq ''password'' '''' = form_get req ''password'' ''''"
  proof -
    have "form_get lreq ''password'' '''' \<noteq> []" using eq pw by simp
    from login_known_user [OF lpost lemail this found, of check s]
    show ?thesis using verifies eq by simp
  qed
  have wrong: "login check lreq (s, ?d1) =
          (Inr (render_template ''login.html''),
           flash ''Invalid email or password.'' ''error'' s, new_session ?d1)"
    if ne: "form_get lreq ''password'' '''' \<noteq> form_get req ''password'' '''' \<and>
            form_get lreq ''password'' '''' \<noteq> []"
  proof -
    from ne have nonempty: "form_get lreq ''password'' '''' \<noteq> []" by simp
    from ne rejects
    have "\<not> check (gh (salt e) (form_get req ''password'' '''')) (form_get lreq ''password'' '''')"
      by blast
    with login_known_user [OF lpost lemail nonempty found, of check s]
    show ?thesis by simp
  qed
  have missing: "login check lreq (s, ?d1) =
          (Inr (render_template ''login.html''),
           flash ''Please fill in all fields.'' ''error'' s, new_session ?d1)"
    if "form_get lreq ''password'' '''' = []"
    using that lpost by (simp add: login_missing_field)
  from registered right wrong missing show ?thesis by blast
qed

lemma sample_hash_exact:
  "sample_check_hash (sample_gen_hash slt p) q \<longleftrightarrow> q = p"
  by (auto simp: sample_check_hash_def sample_gen_hash_def)

theorem register_then_authenticate_witness:
  "response_of (signup sample_gen_hash accepting signup_ann (anonymous, empty_db)) =
     Inr (Redirect ''/login'') \<and>
   login sample_check_hash (login_ann ''secret'')
       (anonymous, db_after (signup sample_gen_hash accepting signup_ann (anonymous, empty_db))) =
     (Inr (Redirect ''/home''),
      flash ''Login successful!'' ''success''
        (anonymous\<lparr>user_id := Some 1, user_name := Some ''Ann''\<rparr>),
      new_session (db_after (signup sample_gen_hash accepting signup_ann (anonymous, empty_db)))) \<and>
   login sample_check_hash (login_ann ''Secret'')
       (anonymous, db_after (signup sample_gen_hash accepting signup_ann (anonymous, empty_db))) =
     (Inr (render_template ''login.html''),
      flash ''Invalid email or password.'' ''error'' anonymous,
      new_session (db_after (signup sample_gen_hash accepting signup_ann (anonymous, empty_db))))"
proof -
  have post: "meth signup_ann = POST"
    and name: "strip (form_get signup_ann ''full_name'' '''') \<noteq> []"
    and email: "strip (form_get signup_ann ''email'' '''') \<noteq> []"
    and pw: "form_get signup_ann ''password'' '''' \<noteq> []"
    and fresh: "user_by_email empty_db (strip (form_get signup_ann ''email'' '''')) = None"
    and accepted: "commit_ok accepting"
    by (simp_all add: sample_form_fields strip_samples user_by_email_def empty_db_def
        accepting_def)
  have verifies: "sample_check_hash
      (sample_gen_hash (salt accepting) (form_get signup_ann ''password'' ''''))
      (form_get signup_ann ''password'' '''')"
    by (simp add: sample_hash_exact)
  have rejects: "\<forall>p. p \<noteq> form_get signup_ann ''password'' '''' \<longrightarrow>
      \<not> sample_check_hash
          (sample_gen_hash (salt accepting) (form_get signup_ann ''password'' '''')) p"
    by (simp add: sample_hash_exact)
  have lpost: "meth (login_ann p) = POST"
    and same: "strip (form_get (login_ann p) ''email'' '''') =
               strip (form_get signup_ann ''email'' '''')" for p
    by (simp_all add: sample_form_fields)
  have uid: "next_id (map u_id (users empty_db)) = 1"
    by (simp add: next_id_def empty_db_def)
  note inst = register_then_authenticate
    [where gh = sample_gen_hash and check = sample_check_hash and req = signup_ann
       and e = accepting and d = empty_db and sess = anonymous and s = anonymous,
     OF post name email pw fresh accepted verifies rejects lpost same]
  from inst [of "''secret''"]
  have c0: "response_of (signup sample_gen_hash accepting signup_ann (anonymous, empty_db)) =
     Inr (Redirect ''/login'')"
    by blast
  from inst [of "''secret''"]
  have c1: "login sample_check_hash (login_ann ''secret'')
       (anonymous, db_after (signup sample_gen_hash accepting signup_ann (anonymous, empty_db))) =
     (Inr (Redirect ''/home''),
      flash ''Login successful!'' ''success''
        (anonymous\<lparr>user_id := Some 1, user_name := Some ''Ann''\<rparr>),
      new_session (db_after (signup sample_gen_hash accepting signup_ann (anonymous, empty_db))))"
    by (simp add: sample_form_fields strip_samples uid)
  from inst [of "''Secret''"]
  have c2: "login sample_check_hash (login_ann ''Secret'')
       (anonymous, db_after (signup sample_gen_hash accepting signup_ann (anonymous, empty_db))) =
     (Inr (render_template ''login.html''),
      flash ''Invalid email or password.'' ''error'' anonymous,
      new_session (db_after (signup sample_gen_hash accepting signup_ann (anonymous, empty_db))))"
    by (simp add: sample_form_fields)
  from c0 c1 c2 show ?thesis by blast
qed

text \<open>
  The empty password differs from every registered password, and a login with it is
  turned away by the check for missing fields, before the user is looked up: the message
  flashed is \<open>Please fill in all fields\<close>, not \<open>Invalid email or password\<close>.
\<close>

theorem login_empty_password_counterexample:
  "response_of
     (signup sample_gen_hash \<lparr>commit_ok = True, now = 7, salt = ''s''\<rparr>
        \<lparr>meth = POST, path = ''/signup'',
         form = [(''full_name'', ''Ann''), (''email'', ''ann@example.org''),
                 (''password'', ''secret'')],
         json = None\<rparr>
        (\<lparr>user_id = None, user_name = None, flashes = []\<rparr>,
         \<lparr>users = [], chat_rows = [], feedback_rows = []\<rparr>)) = Inr (Redirect ''/login'') \<and>
   '''' \<noteq> ''secret'' \<and>
   login sample_check_hash
     \<lparr>meth = POST, path = ''/login'',
      form = [(''email'', ''ann@example.org''), (''password'', '''')], json = None\<rparr>
     (\<lparr>user_id = None, user_name = None, flashes = []\<rparr>,
      db_after
        (signup sample_gen_hash \<lparr>commit_ok = True, now = 7, salt = ''s''\<rparr>
           \<lparr>meth = POST, path = ''/signup'',
            form = [(''full_name'', ''Ann''), (''email'', ''ann@example.org''),
                    (''password'', ''secret'')],
            json = None\<rparr>
           (\<lparr>user_id = None, user_name = None, flashes = []\<rparr>,
            \<lparr>users = [], chat_rows = [], feedback_rows = []\<rparr>)))
   = (Inr (Render ''login.html'' NoContext 200),
      \<lparr>user_id = None, user_name = None,
       flashes = [(''error'', ''Please fill in all fields.'')]\<rparr>,
      \<lparr>tables =
         \<lparr>users = [\<lparr>u_id = 1, u_full_name = ''Ann'', u_email = ''ann@example.org'',
                     u_password_hash = ''sample$terces'', u_created_at = 7\<rparr>],
          chat_rows = [], feedback_rows = []\<rparr>,
       pending = []\<rparr>) \<and>
   [(''error'', ''Please fill in all fields.'')] \<noteq> [(''error'', ''Invalid email or password.'')]"
proof -
  have f: "form_get \<lparr>meth = POST, path = ''/signup'',
         form = [(''full_name'', ''Ann''), (''email'', ''ann@example.org''),
                 (''password'', ''secret'')],
         json = None\<rparr> ''full_name'' '''' = ''Ann''"
    "form_get \<lparr>meth = POST, path = ''/signup'',
         form = [(''full_name'', ''Ann''), (''email'', ''ann@example.org''),
                 (''password'', ''secret'')],
         json = None\<rparr> ''email'' '''' = ''ann@example.org''"
    "form_get \<lparr>meth = POST, path = ''/signup'',
         form = [(''full_name'', ''Ann''), (''email'', ''ann@example.org''),
                 (''password'', ''secret'')],
         json = None\<rparr> ''password'' '''' = ''secret''"
    "form_get \<lparr>meth = POST, path = ''/login'',
      form = [(''email'', ''ann@example.org''), (''password'', '''')], json = None\<rparr>
      ''email'' '''' = ''ann@example.org''"
    "form_get \<lparr>meth = POST, path = ''/login'',
      form = [(''email'', ''ann@example.org''), (''password'', '''')], json = None\<rparr>
      ''password'' '''' = []"
    by (simp_all add: form_get_def)
  show ?thesis
    by (simp add: response_of_def db_after_def signup_def login_def Let_def f strip_samples
        user_by_email_def db_commit_def db_add_def new_session_def next_id_def
        sample_gen_hash_def render_template_def flash_def)
qed

section \<open>Chat turns and feedback\<close>

lemma chat_api_reply:
  assumes "user_id sess = Some uid"
    and "message_of req = Inr (Some (JString m))"
    and "m \<noteq> []"
    and "commit_ok e"
  shows "chat_api e req (sess, d) =
     (Inr (Jsonify [(''reply'', get_ai_response (strip m)), (''sentiment'', chat_sentiment m),
                    (''question'', m)] 200),
      sess,
      new_session (d\<lparr>chat_rows := chat_rows d @
        [\<lparr>c_id = next_id (map c_id (chat_rows d)), c_user_id = uid, c_question = m,
          c_response = get_ai_response (strip m), c_timestamp = now e\<rparr>]\<rparr>))"
  using assms by (simp add: chat_api_def Let_def db_commit_def db_add_def new_session_def)

lemma chat_api_refused:
  assumes "user_id sess = Some uid"
    and "message_of req = Inr (Some (JString m))"
    and "m \<noteq> []"
    and "\<not> commit_ok e"
  shows "chat_api e req (sess, d) =
     (Inr (Jsonify [(''error'',
                     ''AI service is temporarily unavailable. Please try again later.'')] 503),
      sess,
      \<lparr>tables = d, pending = [NewChatHistory uid m (get_ai_response (strip m))]\<rparr>)"
  using assms by (simp add: chat_api_def Let_def db_commit_def db_add_def new_session_def)

lemma submit_feedback_refused:
  assumes "user_id sess = Some uid"
    and "strip (form_get req ''feedback'' '''') \<noteq> []"
    and "\<not> commit_ok e"
  shows "submit_feedback pol e req (sess, d) =
     (Inl SQLAlchemyError, sess,
      \<lparr>tables = d,
       pending = [NewFeedback uid (form_get req ''question'' '''')
                    (strip (form_get req ''feedback'' ''''))
                    (analyze_sentiment pol (strip (form_get req ''feedback'' '''')))]\<rparr>)"
  using assms
  by (simp add: submit_feedback_def Let_def db_commit_def db_add_def new_session_def)

text \<open>
  C4. For every feedback submission of a logged-in user: when the feedback text is empty
  after trimming, no row is added, nothing is flashed and the answer is a redirect to
  \<open>/chat\<close>, whether or not the database would accept a commit; when it is not empty and
  the database accepts the commit, the feedback table gains exactly one row, with the
  user's id, the question, the trimmed text and its sentiment label, the other tables
  stay as they were, and the answer is again a redirect to \<open>/chat\<close>.
\<close>

theorem submit_feedback_rows:
  "user_id sess = Some uid \<longrightarrow>
     (strip (form_get req ''feedback'' '''') = [] \<longrightarrow>
        submit_feedback pol e req (sess, d) = (Inr (Redirect ''/chat''), sess, new_session d)) \<and>
     (strip (form_get req ''feedback'' '''') \<noteq> [] \<and> commit_ok e \<longrightarrow>
        submit_feedback pol e req (sess, d) =
          (Inr (Redirect ''/chat''),
           flash ''Thank you for your feedback! It helps us improve our services.'' ''success''
             sess,
           new_session (d\<lparr>feedback_rows := feedback_rows d @
             [\<lparr>f_id = next_id (map f_id (feedback_rows d)), f_user_id = uid,
               f_question = form_get req ''question'' '''',
               f_feedback_text = strip (form_get req ''feedback'' ''''),
               f_sentiment = analyze_sentiment pol (strip (form_get req ''feedback'' '''')),
               f_timestamp = now e\<rparr>]\<rparr>)))"
  by (simp add: submit_feedback_def Let_def db_commit_def db_add_def new_session_def)

theorem submit_feedback_rows_witness:
  "user_id ann = Some 1 \<and>
   strip (form_get (feedback_form ''   '') ''feedback'' '''') = [] \<and>
   submit_feedback sample_polarity accepting (feedback_form ''   '') (ann, sample_db) =
     (Inr (Redirect ''/chat''), ann, new_session sample_db) \<and>
   strip (form_get (feedback_form ''great help'') ''feedback'' '''') \<noteq> [] \<and>
   commit_ok accepting \<and>
   submit_feedback sample_polarity accepting (feedback_form ''great help'') (ann, sample_db) =
     (Inr (Redirect ''/chat''),
      flash ''Thank you for your feedback! It helps us improve our services.'' ''success'' ann,
      new_session (sample_db\<lparr>feedback_rows := feedback_rows sample_db @
        [\<lparr>f_id = 6, f_user_id = 1, f_question = ''How do I vote?'',
          f_feedback_text = ''great help'', f_sentiment = ''Positive'', f_timestamp = 7\<rparr>]\<rparr>))"
proof -
  have h: "user_id ann = Some 1"
    by (simp add: ann_def)
  have blank: "strip (form_get (feedback_form ''   '') ''feedback'' '''') = []"
    by (simp add: sample_form_fields strip_samples)
  have filled: "strip (form_get (feedback_form ''great help'') ''feedback'' '''') = ''great help''"
    by (simp add: sample_form_fields strip_samples)
  have ok: "commit_ok accepting" "now accepting = 7"
    by (simp_all add: accepting_def)
  have label: "analyze_sentiment sample_polarity ''great help'' = ''Positive''"
    by (simp add: analyze_sentiment_def sample_polarity_def float_0_1_def)
  have fid: "next_id (map f_id (feedback_rows sample_db)) = 6"
    by (simp add: next_id_def sample_db_def sample_feedback_def)
  from submit_feedback_rows [of ann 1 "feedback_form ''   ''" sample_polarity accepting sample_db]
    h blank
  have c1: "submit_feedback sample_polarity accepting (feedback_form ''   '') (ann, sample_db) =
     (Inr (Redirect ''/chat''), ann, new_session sample_db)"
    by blast
  from submit_feedback_rows
         [of ann 1 "feedback_form ''great help''" sample_polarity accepting sample_db] h filled ok
  have c2: "submit_feedback sample_polarity accepting (feedback_form ''great help'')
       (ann, sample_db) =
     (Inr (Redirect ''/chat''),
      flash ''Thank you for your feedback! It helps us improve our services.'' ''success'' ann,
      new_session (sample_db\<lparr>feedback_rows := feedback_rows sample_db @
        [\<lparr>f_id = 6, f_user_id = 1, f_question = ''How do I vote?'',
          f_feedback_text = ''great help'', f_sentiment = ''Positive'', f_timestamp = 7\<rparr>]\<rparr>))"
    by (simp add: sample_form_fields label fid)
  from h blank filled ok c1 c2 show ?thesis by simp
qed

text \<open>
  C5. A refused commit in \<open>submit_feedback\<close>: the exception leaves the view, so there is
  no redirect and no flashed message, and the view does not roll back, so the added row
  is still pending in the session. The tables themselves are unchanged. \<open>signup\<close>
  catches the same failure, rolls back and flashes an error (\<open>signup_refused\<close>);
  \<open>chat_api\<close> catches it and answers 503 without rolling back (\<open>chat_api_refused\<close>).
\<close>

theorem submit_feedback_commit_failure:
  "submit_feedback sample_polarity \<lparr>commit_ok = False, now = 7, salt = ''s''\<rparr>
     \<lparr>meth = POST, path = ''/submit_feedback'',
      form = [(''question'', ''How do I vote?''), (''feedback'', ''great help'')], json = None\<rparr>
     (\<lparr>user_id = Some 1, user_name = Some ''Ann'', flashes = []\<rparr>,
      \<lparr>users = [], chat_rows = [], feedback_rows = []\<rparr>)
   = (Inl SQLAlchemyError,
      \<lparr>user_id = Some 1, user_name = Some ''Ann'', flashes = []\<rparr>,
      \<lparr>tables = \<lparr>users = [], chat_rows = [], feedback_rows = []\<rparr>,
       pending = [NewFeedback 1 ''How do I vote?'' ''great help'' ''Positive'']\<rparr>)"
proof -
  have label: "analyze_sentiment sample_polarity ''great help'' = ''Positive''"
    by (simp add: analyze_sentiment_def sample_polarity_def float_0_1_def)
  show ?thesis
    by (simp add: submit_feedback_def Let_def form_get_def strip_samples label db_commit_def
        db_add_def new_session_def)
qed

lemma chat_api_commit_failure_sample:
  "chat_api \<lparr>commit_ok = False, now = 7, salt = ''s''\<rparr>
     \<lparr>meth = POST, path = ''/chat'', form = [(''message'', ''xyz'')], json = None\<rparr>
     (\<lparr>user_id = Some 1, user_name = Some ''Ann'', flashes = []\<rparr>,
      \<lparr>users = [], chat_rows = [], feedback_rows = []\<rparr>)
   = (Inr (Jsonify [(''error'',
                     ''AI service is temporarily unavailable. Please try again later.'')] 503),
      \<lparr>user_id = Some 1, user_name = Some ''Ann'', flashes = []\<rparr>,
      \<lparr>tables = \<lparr>users = [], chat_rows = [], feedback_rows = []\<rparr>,
       pending = [NewChatHistory 1 ''xyz'' default_template]\<rparr>)"
proof -
  have m: "message_of \<lparr>meth = POST, path = ''/chat'', form = [(''message'', ''xyz'')],
      json = None\<rparr> = Inr (Some (JString ''xyz''))"
    by (simp add: message_of_def)
  have r: "get_ai_response (strip ''xyz'') = default_template"
    by code_simp
  show ?thesis
    by (simp add: chat_api_refused [OF _ m] r)
qed

end
